theory Spec2Isabelle
  imports Main
begin

section \<open>The infinite-loop detector's runtime (src/infiniteLoops/runtime.ts)\<close>

text \<open>
  The runtime is the table of hook functions that instrumented code calls, the dispatch
  policy, the stream heuristic, the table of replaced builtins and the driver
  \<open>testForInfiniteLoop\<close>. The modules it imports (\<open>symbolic\<close>, \<open>state\<close>,
  \<open>detect\<close>, \<open>stdlib/list\<close>, \<open>astCreator\<close>, the parser and the instrumenter) are
  not part of the sources at hand. What the runtime needs from them is either modelled
  from the specification (each such definition says so) or taken as a parameter.
\<close>

subsection \<open>Values\<close>

text \<open>
  Symbolic expressions are ESTree expression nodes. The runtime only asks whether a node
  is a \<open>Literal\<close> and builds the unary node \<open>!e\<close>.
\<close>

datatype literal = LNull | LBool bool | LNum int | LStr string

datatype expr =
    Literal literal
  | Identifier string
  | UnaryExpression string expr
  | BinaryExpression string expr expr

text \<open>
  JavaScript values. A hybrid value is an object with the fields \<open>type\<close>,
  \<open>concrete\<close>, \<open>symbolic\<close>, \<open>negation\<close> (optional) and \<open>invalid\<close>, in that
  order in \<open>VHybrid\<close>. \<open>VState\<close> is the reference to the run's state object, which
  instrumented code passes to the hooks.

  Function values are the closures that the runtime itself creates, and \<open>Native n\<close> for
  every other function (a function of the analysed program, or an original builtin),
  whose behaviour is a parameter \<open>env\<close> of the model:
  \<^item> \<open>ConcretizeArgs f\<close> is \<open>(...args) => f(...args.map(sym.shallowConcretize))\<close>
    of \<open>prepareBuiltins\<close>;
  \<^item> \<open>NothingFunction\<close> is \<open>nothingFunction\<close>;
  \<^item> \<open>IsNullSpecial\<close> is \<open>builtinSpecialCases.is_null\<close>;
  \<^item> \<open>PassedAsArgument f\<close> is the closure returned by \<open>wrapArgIfFunction\<close>.
\<close>

datatype val =
    VUndefined
  | VNull
  | VBool bool
  | VNum int
  | VStr string
  | VArray "val list"
  | VFun fn
  | VHybrid string val expr "expr option" bool
  | VState
and fn =
    Native nat
  | ConcretizeArgs val
  | NothingFunction
  | IsNullSpecial
  | PassedAsArgument fn

text \<open>\<open>typeof v === 'function'\<close>\<close>

fun isFunction :: "val \<Rightarrow> bool" where
  "isFunction (VFun f) = True"
| "isFunction v = False"

text \<open>JavaScript's conversion to a boolean, as \<open>!v\<close> and \<open>v ? a : b\<close> apply it.\<close>

fun truthy :: "val \<Rightarrow> bool" where
  "truthy VUndefined = False"
| "truthy VNull = False"
| "truthy (VBool b) = b"
| "truthy (VNum n) = (n \<noteq> 0)"
| "truthy (VStr s) = (s \<noteq> [])"
| "truthy v = True"

text \<open>\<open>xs[i]\<close>: \<open>undefined\<close> beyond the end of an array and on a value that is no array.\<close>

fun index :: "val \<Rightarrow> nat \<Rightarrow> val" where
  "index (VArray xs) i = (if i < length xs then xs ! i else VUndefined)"
| "index v i = VUndefined"

text \<open>The \<open>i\<close>-th actual argument of a call, \<open>undefined\<close> when it was not passed.\<close>

definition arg :: "val list \<Rightarrow> nat \<Rightarrow> val" where
  "arg args i = (if i < length args then args ! i else VUndefined)"

subsection \<open>Errors\<close>

type_synonym SourceLocation = "(nat \<times> nat) \<times> (nat \<times> nat)"

text \<open>
  \<open>InfiniteLoopError\<close> of module \<open>detect\<close>: the runtime reads and writes only its
  \<open>location\<close>; the rest of the diagnostic is its \<open>message\<close>.
\<close>

record InfiniteLoopError =
  message :: string
  location :: "SourceLocation option"

text \<open>
  What a \<open>throw\<close> carries: a plain \<open>new Error(msg)\<close>, the \<open>TypeError\<close> of calling
  a value that is not a function, or an \<open>InfiniteLoopError\<close>.
\<close>

datatype error =
    Error string
  | TypeError string
  | InfiniteLoop InfiniteLoopError

text \<open>
  A function that may throw returns \<open>Inl e\<close> for \<open>throw e\<close> and \<open>Inr r\<close> for
  \<open>return r\<close>, together with the state as it is at that moment.
\<close>

type_synonym ('r, 's) outcome = "(error + 'r) \<times> 's"

subsection \<open>The execution state (module state)\<close>

text \<open>
  A stack frame is the snapshot of the variable bindings and the source location. The
  trackers hold stack frames as numbers (\<open>stackPositions: number[]\<close>), here the
  positions of the frames in \<open>stackFrames\<close>.
\<close>

record StackFrame =
  bindings :: "string \<rightharpoonup> val"
  frameLocation :: "SourceLocation option"

text \<open>
  The fields \<open>variablesModified\<close>, \<open>variablesToReset\<close>, \<open>loopStack\<close>,
  \<open>threshold\<close>, \<open>streamThreshold\<close>, \<open>streamMode\<close>, \<open>streamLastFunction\<close>,
  \<open>streamCounts\<close>, \<open>lastLocation\<close> and \<open>functionWasPassedAsArgument\<close> are read and
  written by the runtime. The others are modelled from the specification's data model:
  the mapping from function name to tracker, the marker of the active function, the
  stack frames, the path condition with its validity flag, and the timeout flag.
  The two thresholds are JavaScript numbers; they are configured as whole numbers.
  Functions are polymorphic in the record's extension, which stands for whatever else a
  run keeps (the memory of the analysed program).
\<close>

record State =
  variablesModified :: "string \<rightharpoonup> val"
  variablesToReset :: "string set"
  loopStack :: "nat list list"
  functionTrackers :: "string \<rightharpoonup> nat list"
  functionStack :: "string list"
  stackFrames :: "StackFrame list"
  pathCondition :: "expr option"
  invalidPath :: bool
  threshold :: int
  streamThreshold :: int
  streamMode :: bool
  streamLastFunction :: "string option"
  streamCounts :: "string option \<rightharpoonup> int"
  lastLocation :: "SourceLocation option"
  functionWasPassedAsArgument :: bool
  timedOut :: bool

text \<open>
  Modelled from the spec: \<open>State.hasTimedOut\<close> is missing from the sources; it is
  true once the budget configured for the run is exceeded. The clock is outside the
  model: the flag \<open>timedOut\<close> is what a poll of it answers.
\<close>

definition hasTimedOut :: "'a State_scheme \<Rightarrow> bool" where
  "hasTimedOut state = timedOut state"

text \<open>
  Modelled from the spec: \<open>State.setInvalidPath\<close> and \<open>State.savePath\<close> are missing
  from the sources; they invalidate tracking, or record the symbolic expression, of the
  boolean condition most recently evaluated.
\<close>

definition setInvalidPath :: "'a State_scheme \<Rightarrow> 'a State_scheme" where
  "setInvalidPath state = state\<lparr>invalidPath := True\<rparr>"

definition savePath :: "expr \<Rightarrow> 'a State_scheme \<Rightarrow> 'a State_scheme" where
  "savePath e state = state\<lparr>pathCondition := Some e\<rparr>"

text \<open>
  Modelled from the spec: \<open>State.cleanUpVariables\<close> is missing from the sources; it
  marks every tracked variable name (every name with a last observed hybrid value) as
  pending reset.
\<close>

definition cleanUpVariables :: "'a State_scheme \<Rightarrow> 'a State_scheme" where
  "cleanUpVariables state =
     state\<lparr>variablesToReset := variablesToReset state \<union> dom (variablesModified state)\<rparr>"

text \<open>
  Modelled from the spec: \<open>State.enterFunction\<close> is missing from the sources; it looks
  up or creates the tracker for the name, and its second result is true exactly when no
  prior stack frame exists for this name.
\<close>

definition enterFunction ::
  "string \<Rightarrow> 'a State_scheme \<Rightarrow> (nat list \<times> bool) \<times> 'a State_scheme" where
  "enterFunction name state =
     (case functionTrackers state name of
        None \<Rightarrow> (([], True), state\<lparr>functionTrackers := (functionTrackers state)(name \<mapsto> [])\<rparr>)
      | Some tracker \<Rightarrow> ((tracker, tracker = []), state))"

text \<open>
  Modelled from the spec: \<open>State.newStackFrame\<close> is missing from the sources; it
  captures the current variable bindings and the last known source location.
\<close>

definition newStackFrame :: "'a State_scheme \<Rightarrow> nat \<times> 'a State_scheme" where
  "newStackFrame state =
     (length (stackFrames state),
      state\<lparr>stackFrames := stackFrames state @
        [\<lparr>bindings = variablesModified state, frameLocation = lastLocation state\<rparr>]\<rparr>)"

text \<open>
  Modelled from the spec: \<open>sym.isHybrid\<close> is missing from the sources; a value is
  either concrete or a hybrid (symbolic) one.
\<close>

fun isHybrid :: "val \<Rightarrow> bool" where
  "isHybrid (VHybrid ty c e n i) = True"
| "isHybrid v = False"

text \<open>
  Modelled from the spec: \<open>State.saveArgsInTransition\<close> is missing from the sources;
  it records the hybrid values of a function's arguments into the most recent prior
  stack frame of the tracker.
\<close>

definition saveArgsInTransition ::
  "(string \<times> val) list \<Rightarrow> nat list \<Rightarrow> 'a State_scheme \<Rightarrow> 'a State_scheme" where
  "saveArgsInTransition args tracker state =
     (if tracker = [] \<or> length (stackFrames state) \<le> last tracker then state
      else
        let frame = stackFrames state ! last tracker;
            saved = fold (\<lambda>(name, v) b. if isHybrid v then b(name \<mapsto> v) else b)
                      args (bindings frame)
        in state\<lparr>stackFrames := (stackFrames state)[last tracker := frame\<lparr>bindings := saved\<rparr>]\<rparr>)"

text \<open>
  Modelled from the spec: \<open>State.getLastFunctionName\<close> is missing from the sources; it
  is the name under the marker of the active function, \<open>undefined\<close> when there is none.
\<close>

definition getLastFunctionName :: "'a State_scheme \<Rightarrow> string option" where
  "getLastFunctionName state =
     (case functionStack state of [] \<Rightarrow> None | name # rest \<Rightarrow> Some name)"

subsection \<open>The hybrid value model (module symbolic)\<close>

text \<open>
  Modelled from the spec: \<open>sym.shallowConcretize\<close> is missing from the sources; it
  strips symbolism, returning the underlying concrete value.
\<close>

fun shallowConcretize :: "val \<Rightarrow> val" where
  "shallowConcretize (VHybrid ty c e n i) = c"
| "shallowConcretize v = v"

text \<open>
  Modelled from the spec: \<open>sym.deepConcretizeInplace\<close> is missing from the sources; it
  strips symbolism recursively from composite structures (list cells). The source
  overwrites the cells of the array it is given; the model returns the stripped value.
\<close>

fun deepConcretizeInplace :: "val \<Rightarrow> val" where
  "deepConcretizeInplace (VHybrid ty c e n i) = deepConcretizeInplace c"
| "deepConcretizeInplace (VArray xs) = VArray (map deepConcretizeInplace xs)"
| "deepConcretizeInplace v = v"

text \<open>
  Modelled from the spec: \<open>sym.hybridizeNamed\<close> is missing from the sources; it wraps
  a concrete value read from a named variable into symbolic form, attaching an
  identifier expression that refers to the name. Functions are passed through
  unchanged, and so is a value that is a hybrid already (the existing hybrid).
\<close>

definition hybridizeNamed :: "string \<Rightarrow> val \<Rightarrow> val" where
  "hybridizeNamed name v =
     (if isHybrid v \<or> isFunction v then v
      else VHybrid ''value'' v (Identifier name) None False)"

text \<open>
  Modelled from the spec: \<open>create.unaryExpression\<close> of \<open>astCreator\<close> is missing
  from the sources; it builds the unary node of an operator and its operand.
\<close>

definition unaryExpression :: "string \<Rightarrow> expr \<Rightarrow> expr" where
  "unaryExpression operator e = UnaryExpression operator e"

fun isLiteral :: "expr \<Rightarrow> bool" where
  "isLiteral (Literal l) = True"
| "isLiteral e = False"

subsection \<open>Lists and streams (module stdlib/list)\<close>

text \<open>
  Modelled from the spec: \<open>stdList.is_null\<close> and \<open>stdList.is_pair\<close> are missing from
  the sources; the null test answers whether a list or stream is finished (is
  \<open>null\<close>), and a pair is an array of two elements whose second is the tail. A
  stream is a pair whose tail is a function.
\<close>

definition is_null :: "val \<Rightarrow> bool" where
  "is_null v = (v = VNull)"

fun is_pair :: "val \<Rightarrow> bool" where
  "is_pair (VArray [h, t]) = True"
| "is_pair v = False"

subsection \<open>Hooks\<close>

definition checkTimeout :: "'a State_scheme \<Rightarrow> (unit, 'a State_scheme) outcome" where
  "checkTimeout state =
     (if hasTimedOut state then (Inl (Error ''timeout''), state) else (Inr (), state))"

text \<open>
  \<open>hybridize\<close> runs on every variable access. It reads the state and does not write
  to it: the second component of the result is the state it was given.
\<close>

definition hybridize :: "val \<Rightarrow> string \<Rightarrow> 'a State_scheme \<Rightarrow> val \<times> 'a State_scheme" where
  "hybridize originalValue name state =
     (if isFunction originalValue then (originalValue, state)
      else
        let v = (if name \<in> variablesToReset state
                 then deepConcretizeInplace originalValue else originalValue)
        in (hybridizeNamed name v, state))"

definition saveVarIfHybrid ::
  "val \<Rightarrow> string \<Rightarrow> 'a State_scheme \<Rightarrow> val \<times> 'a State_scheme" where
  "saveVarIfHybrid v name state =
     (let s1 = state\<lparr>variablesToReset := variablesToReset state - {name}\<rparr>
      in (v, if isHybrid v
             then s1\<lparr>variablesModified := (variablesModified s1)(name \<mapsto> v)\<rparr>
             else s1))"

fun saveBoolIfHybrid :: "val \<Rightarrow> 'a State_scheme \<Rightarrow> val \<times> 'a State_scheme" where
  "saveBoolIfHybrid (VHybrid ty c e n i) state =
     (if ty = ''value'' then
        (if i then (shallowConcretize (VHybrid ty c e n i), setInvalidPath state)
         else
           (shallowConcretize (VHybrid ty c e n i),
            if \<not> isLiteral e then
              savePath
                (if \<not> truthy c
                 then (case n of Some ne \<Rightarrow> ne | None \<Rightarrow> unaryExpression ''!'' e)
                 else e)
                state
            else state))
      else (VHybrid ty c e n i, setInvalidPath state))"
| "saveBoolIfHybrid v state = (v, setInvalidPath state)"

text \<open>The closure that \<open>wrapArgIfFunction\<close> returns captures the run's one state.\<close>

fun wrapArgIfFunction :: "val \<Rightarrow> val" where
  "wrapArgIfFunction (VFun f) = VFun (PassedAsArgument f)"
| "wrapArgIfFunction v = v"

subsection \<open>The dispatch policy\<close>

text \<open>
  \<open>checkForInfiniteLoop\<close> of module \<open>detect\<close> is the parameter \<open>check\<close>: it
  returns, or throws the diagnostic, and may change the state; the history it is given
  is a fresh copy (\<open>slice\<close>) that it leaves as it is. The \<open>while\<close> loop does not
  end for every threshold (a checkpoint of 0 stays 0), so it is a partial function:
  \<open>None\<close> is a loop that runs forever.
\<close>

partial_function (option) dispatch_loop ::
  "(nat list \<Rightarrow> 'a State_scheme \<Rightarrow> string option \<Rightarrow> (unit, 'a State_scheme) outcome) \<Rightarrow>
   nat list \<Rightarrow> string option \<Rightarrow> int \<Rightarrow> 'a State_scheme \<Rightarrow>
   (unit, 'a State_scheme) outcome option"
where
  "dispatch_loop check stackPositions functionName checkpoint state =
     (if checkpoint \<le> int (length stackPositions) then
        (if int (length stackPositions) = checkpoint then
           (case check stackPositions state functionName of
              (Inl e, state') \<Rightarrow> Some (Inl e, state')
            | (Inr u, state') \<Rightarrow>
                dispatch_loop check stackPositions functionName (checkpoint * 2) state')
         else dispatch_loop check stackPositions functionName (checkpoint * 2) state)
      else Some (Inr (), state))"

definition dispatchIfMeetsThreshold ::
  "(nat list \<Rightarrow> 'a State_scheme \<Rightarrow> string option \<Rightarrow> (unit, 'a State_scheme) outcome) \<Rightarrow>
   nat list \<Rightarrow> 'a State_scheme \<Rightarrow> string option \<Rightarrow> (unit, 'a State_scheme) outcome option"
where
  "dispatchIfMeetsThreshold check stackPositions state functionName =
     dispatch_loop check stackPositions functionName (threshold state) state"

subsection \<open>Function entry\<close>

text \<open>
  The tracker that \<open>enterFunction\<close> returns is the array held by the state under the
  name; \<open>tracker.push\<close> is therefore a write to the state's entry for that name.
\<close>

definition pushTracker :: "string \<Rightarrow> nat \<Rightarrow> 'a State_scheme \<Rightarrow> 'a State_scheme" where
  "pushTracker key frame state =
     state\<lparr>functionTrackers := (functionTrackers state)
       (key \<mapsto> (case functionTrackers state key of None \<Rightarrow> [] | Some tracker \<Rightarrow> tracker)
               @ [frame])\<rparr>"

definition preFunction ::
  "(nat list \<Rightarrow> 'a State_scheme \<Rightarrow> string option \<Rightarrow> (unit, 'a State_scheme) outcome) \<Rightarrow>
   string \<Rightarrow> (string \<times> val) list \<Rightarrow> 'a State_scheme \<Rightarrow>
   (unit, 'a State_scheme) outcome option"
where
  "preFunction check name args state =
     (case checkTimeout state of
        (Inl e, s) \<Rightarrow> Some (Inl e, s)
      | (Inr u, s) \<Rightarrow>
          (let newName = (if functionWasPassedAsArgument s then ''*'' @ name else name);
               ((tracker, firstIteration), s1) = enterFunction newName s
           in case (if \<not> firstIteration then
                      (let s2 = cleanUpVariables s1;
                           s3 = saveArgsInTransition args tracker s2
                       in if \<not> functionWasPassedAsArgument s3
                          then dispatchIfMeetsThreshold check (butlast tracker) s3 (Some name)
                          else Some (Inr (), s3))
                    else Some (Inr (), s1)) of
                None \<Rightarrow> None
              | Some (Inl e, s4) \<Rightarrow> Some (Inl e, s4)
              | Some (Inr u, s4) \<Rightarrow>
                  (let (frame, s5) = newStackFrame s4
                   in Some (Inr (),
                        (pushTracker newName frame s5)
                          \<lparr>functionWasPassedAsArgument := False\<rparr>))))"


subsection \<open>The stream heuristic\<close>

text \<open>
  Calling a tail (\<open>nextTail()\<close>, \<open>theTail()\<close>) runs code of the analysed program:
  the parameter \<open>call\<close> gives, for a function value and the state, what the call
  returns or throws and the state it leaves. The loop reads \<open>state.threshold\<close> at
  every iteration, so its end is not given by its form and it is a partial function.
  The last component of the result lists the tails that were called, in order; the
  source has no such list, it is kept to state how many elements are forced.
\<close>

partial_function (option) stream_loop ::
  "(fn \<Rightarrow> 'a State_scheme \<Rightarrow> (val, 'a State_scheme) outcome) \<Rightarrow>
   int \<Rightarrow> val \<Rightarrow> 'a State_scheme \<Rightarrow> fn list \<Rightarrow>
   ((unit, 'a State_scheme) outcome \<times> fn list) option"
where
  "stream_loop call i next state forced =
     (if i \<le> threshold state then
        (if is_null next then Some ((Inr (), state), forced)
         else
           (case (if is_pair next then index next 1 else VUndefined) of
              VFun nextTail \<Rightarrow>
                (case call nextTail state of
                   (Inl e, state') \<Rightarrow> Some ((Inl e, state'), forced @ [nextTail])
                 | (Inr v, state') \<Rightarrow>
                     stream_loop call (i + 1) (shallowConcretize v) state'
                       (forced @ [nextTail]))
            | _ \<Rightarrow> Some ((Inr (), state), forced)))
      else Some ((Inr (), state), forced))"

definition testIfInfiniteStream ::
  "(fn \<Rightarrow> 'a State_scheme \<Rightarrow> (val, 'a State_scheme) outcome) \<Rightarrow>
   val \<Rightarrow> 'a State_scheme \<Rightarrow> ((unit, 'a State_scheme) outcome \<times> fn list) option"
where
  "testIfInfiniteStream call stream state =
     (case stream_loop call 0 stream state [] of
        None \<Rightarrow> None
      | Some ((Inl e, state'), forced) \<Rightarrow> Some ((Inl e, state'), forced)
      | Some ((Inr u, state'), forced) \<Rightarrow> Some ((Inl (Error ''timeout''), state'), forced))"

text \<open>
  \<open>builtinSpecialCases.is_null(maybeHybrid, state?)\<close>: the second argument is the
  value that was passed for the state, \<open>undefined\<close> when none was. The source tests
  it for truthiness and then calls its method \<open>getLastFunctionName\<close>, which throws a
  \<open>TypeError\<close> on a truthy value that is not the state. After the call of
  \<open>testIfInfiniteStream\<close> the source has a plain \<open>return\<close>.
\<close>

definition is_null_special ::
  "(fn \<Rightarrow> 'a State_scheme \<Rightarrow> (val, 'a State_scheme) outcome) \<Rightarrow>
   val \<Rightarrow> val \<Rightarrow> 'a State_scheme \<Rightarrow> ((val, 'a State_scheme) outcome \<times> fn list) option"
where
  "is_null_special call maybeHybrid stateArg state =
     (let xs = shallowConcretize maybeHybrid;
          conc = is_null xs;
          theTail = (if is_pair xs then index xs 1 else VUndefined)
      in case theTail of
           VFun tailFn \<Rightarrow>
             if truthy stateArg then
               if stateArg \<noteq> VState then
                 Some ((Inl (TypeError ''state.getLastFunctionName is not a function''),
                        state), [])
               else
               (let lastFunction = getLastFunctionName state in
                if streamMode state \<and> streamLastFunction state = lastFunction then
                  (case call tailFn state of
                     (Inl e, s) \<Rightarrow> Some ((Inl e, s), [tailFn])
                   | (Inr v, s) \<Rightarrow>
                       (case testIfInfiniteStream call (shallowConcretize v) s of
                          None \<Rightarrow> None
                        | Some ((Inl e, s'), forced) \<Rightarrow> Some ((Inl e, s'), tailFn # forced)
                        | Some ((Inr u, s'), forced) \<Rightarrow>
                            Some ((Inr VUndefined, s'), tailFn # forced)))
                else
                  (let count = (case streamCounts state lastFunction of
                                  None \<Rightarrow> 1 | Some c \<Rightarrow> c);
                       s1 = (if count > streamThreshold state
                             then state\<lparr>streamMode := True, streamLastFunction := lastFunction\<rparr>
                             else state);
                       s2 = s1\<lparr>streamCounts := (streamCounts s1)(lastFunction \<mapsto> count + 1)\<rparr>
                   in Some ((Inr VUndefined, s2), [])))
             else Some ((Inr (VBool conc), state), [])
         | _ \<Rightarrow> Some ((Inr (VBool conc), state), []))"




subsection \<open>Calling function values\<close>

text \<open>
  \<open>env n args state\<close> is what the native function \<open>n\<close> does on the arguments.
  \<open>callThunk\<close> is a call without arguments, as the stream heuristic makes them: the
  null test called so has neither a value nor a state and returns
  \<open>is_null(undefined)\<close>.
\<close>

fun callThunk ::
  "(nat \<Rightarrow> val list \<Rightarrow> 'a State_scheme \<Rightarrow> (val, 'a State_scheme) outcome) \<Rightarrow>
   fn \<Rightarrow> 'a State_scheme \<Rightarrow> (val, 'a State_scheme) outcome"
where
  "callThunk env (Native n) state = env n [] state"
| "callThunk env (ConcretizeArgs (VFun f)) state = callThunk env f state"
| "callThunk env (ConcretizeArgs v) state = (Inl (TypeError ''fun is not a function''), state)"
| "callThunk env NothingFunction state = (Inr (VFun NothingFunction), state)"
| "callThunk env IsNullSpecial state = (Inr (VBool (is_null VUndefined)), state)"
| "callThunk env (PassedAsArgument f) state =
     callThunk env f (state\<lparr>functionWasPassedAsArgument := True\<rparr>)"

text \<open>
  A call with arguments. The null test takes the value as its first argument and the
  state as its second (\<open>undefined\<close> when fewer are passed); it may not return
  (\<open>None\<close>), and so may any call.
\<close>

fun callFunction ::
  "(nat \<Rightarrow> val list \<Rightarrow> 'a State_scheme \<Rightarrow> (val, 'a State_scheme) outcome) \<Rightarrow>
   fn \<Rightarrow> val list \<Rightarrow> 'a State_scheme \<Rightarrow> (val, 'a State_scheme) outcome option"
where
  "callFunction env (Native n) args state = Some (env n args state)"
| "callFunction env (ConcretizeArgs (VFun f)) args state =
     callFunction env f (map shallowConcretize args) state"
| "callFunction env (ConcretizeArgs v) args state =
     Some (Inl (TypeError ''fun is not a function''), state)"
| "callFunction env NothingFunction args state = Some (Inr (VFun NothingFunction), state)"
| "callFunction env IsNullSpecial args state =
     map_option fst
       (is_null_special (callThunk env) (arg args 0) (arg args 1) state)"
| "callFunction env (PassedAsArgument f) args state =
     callFunction env f args (state\<lparr>functionWasPassedAsArgument := True\<rparr>)"

text \<open>
  A chain of calls \<open>v(args\<^sub>1)(args\<^sub>2)\<dots>\<close>: each result is called on the next
  argument list; calling a value that is not a function throws.
\<close>

fun callChain ::
  "(nat \<Rightarrow> val list \<Rightarrow> 'a State_scheme \<Rightarrow> (val, 'a State_scheme) outcome) \<Rightarrow>
   val \<Rightarrow> val list list \<Rightarrow> 'a State_scheme \<Rightarrow> (val, 'a State_scheme) outcome option"
where
  "callChain env v [] state = Some (Inr v, state)"
| "callChain env (VFun f) (args # rest) state =
     (case callFunction env f args state of
        None \<Rightarrow> None
      | Some (Inl e, s) \<Rightarrow> Some (Inl e, s)
      | Some (Inr r, s) \<Rightarrow> callChain env r rest s)"
| "callChain env v (args # rest) state = Some (Inl (TypeError ''not a function''), state)"

subsection \<open>The table of builtins\<close>

definition nothingFunction :: val where
  "nothingFunction = VFun NothingFunction"

text \<open>The three own properties of the object \<open>builtinSpecialCases\<close>.\<close>

definition builtinSpecialCases :: "string \<Rightarrow> val option" where
  "builtinSpecialCases name =
     (if name = ''is_null'' then Some (VFun IsNullSpecial)
      else if name = ''display'' then Some nothingFunction
      else if name = ''display_list'' then Some nothingFunction
      else None)"

text \<open>
  A JavaScript \<open>Map\<close> is a list of entries in insertion order with distinct keys;
  \<open>Map.set\<close> overwrites the entry of a key that is present and appends otherwise,
  \<open>Map.get\<close> is \<open>map_of\<close>.
\<close>

fun map_set :: "string \<Rightarrow> val \<Rightarrow> (string \<times> val) list \<Rightarrow> (string \<times> val) list" where
  "map_set k v [] = [(k, v)]"
| "map_set k v ((k', v') # m) = (if k' = k then (k, v) # m else (k', v') # map_set k v m)"

text \<open>
  The read \<open>builtinSpecialCases[name]\<close>. The object is an object literal: a name
  that is none of its own properties is looked up in \<open>Object.prototype\<close>, which has
  members of its own (\<open>toString\<close>, \<open>constructor\<close>, \<open>valueOf\<close> and others). What
  \<open>Object.prototype\<close> holds is the parameter \<open>objectPrototype\<close>, from a name
  to the member, \<open>undefined\<close> where it has none.
\<close>

definition specialCaseOf :: "(string \<Rightarrow> val) \<Rightarrow> string \<Rightarrow> val" where
  "specialCaseOf objectPrototype name =
     (case builtinSpecialCases name of Some v \<Rightarrow> v | None \<Rightarrow> objectPrototype name)"

definition prepareBuiltins ::
  "(string \<Rightarrow> val) \<Rightarrow> (string \<times> val) list \<Rightarrow> (string \<times> val) list" where
  "prepareBuiltins objectPrototype oldBuiltins =
     map_set ''undefined'' VUndefined
       (fold (\<lambda>(name, f) newBuiltins.
                let specialCase = specialCaseOf objectPrototype name in
                if specialCase \<noteq> VUndefined
                then map_set name specialCase newBuiltins
                else map_set name (VFun (ConcretizeArgs f)) newBuiltins)
             oldBuiltins [])"

text \<open>The value that the loop of \<open>prepareBuiltins\<close> stores under a name.\<close>

definition newEntry :: "(string \<Rightarrow> val) \<Rightarrow> string \<Rightarrow> val \<Rightarrow> val" where
  "newEntry objectPrototype name f =
     (if specialCaseOf objectPrototype name \<noteq> VUndefined
      then specialCaseOf objectPrototype name else VFun (ConcretizeArgs f))"

subsection \<open>The driver\<close>

text \<open>
  The members of \<open>Object.prototype\<close>, the parser, the prelude, the context's
  builtins, the instrumenter, the fresh state \<open>new st.State()\<close> and the run of the
  instrumented code are parameters.
  \<open>parse\<close> answers \<open>None\<close> for \<open>undefined\<close>. The run ends normally
  (\<open>Inr ()\<close>), throws (\<open>Inl e\<close>), or does not end (\<open>None\<close>); then the driver does
  not end either. The driver's own result is \<open>Some None\<close> for \<open>undefined\<close> and
  \<open>Some (Some err)\<close> for the error it returns.
\<close>

definition testForInfiniteLoop ::
  "(string \<Rightarrow> val) \<Rightarrow> (string \<Rightarrow> 'prog option) \<Rightarrow> 'prog \<Rightarrow> (string \<times> val) list \<Rightarrow>
   ('prog list \<Rightarrow> 'prog \<Rightarrow> string list \<Rightarrow> 'code) \<Rightarrow> 'a State_scheme \<Rightarrow>
   ('code \<Rightarrow> (string \<times> val) list \<Rightarrow> 'a State_scheme \<Rightarrow>
      (unit, 'a State_scheme) outcome option) \<Rightarrow>
   string \<Rightarrow> string list \<Rightarrow> InfiniteLoopError option option"
where
  "testForInfiniteLoop objectPrototype parse prelude builtins instrument freshState
       sandboxedRun code previousCodeStack =
     (let previous = List.map_filter parse previousCodeStack @ [prelude] in
      case parse code of
        None \<Rightarrow> Some None
      | Some program \<Rightarrow>
          (let newBuiltins = prepareBuiltins objectPrototype builtins;
               instrumentedCode = instrument previous program (map fst newBuiltins)
           in case sandboxedRun instrumentedCode newBuiltins freshState of
                None \<Rightarrow> None
              | Some (Inl (InfiniteLoop err), state) \<Rightarrow>
                  Some (Some (if lastLocation state \<noteq> None
                              then err\<lparr>location := lastLocation state\<rparr> else err))
              | Some (other, state) \<Rightarrow> Some None))"

subsection \<open>Inputs for the examples\<close>

text \<open>
  Modelled from the spec: the constructor of \<open>State\<close> is missing from the sources; a
  fresh state has empty histories and tables and the two configured thresholds.
\<close>

definition newState :: "int \<Rightarrow> int \<Rightarrow> State" where
  "newState th sth =
     \<lparr>variablesModified = Map.empty, variablesToReset = {}, loopStack = [],
      functionTrackers = Map.empty, functionStack = [], stackFrames = [],
      pathCondition = None, invalidPath = False, threshold = th, streamThreshold = sth,
      streamMode = False, streamLastFunction = None, streamCounts = Map.empty,
      lastLocation = None, functionWasPassedAsArgument = False, timedOut = False\<rparr>"

text \<open>A check that never certifies and records the history it was called on.\<close>

definition recordingCheck ::
  "nat list \<Rightarrow> State \<Rightarrow> string option \<Rightarrow> (unit, State) outcome" where
  "recordingCheck sp st fname = (Inr (), st\<lparr>loopStack := sp # loopStack st\<rparr>)"






text \<open>
  A hybrid value of the variable \<open>x\<close> that an addition produced, and a state in
  which \<open>x\<close> is tracked and \<open>cleanUpVariables\<close> has run.
\<close>

definition hx :: val where
  "hx = VHybrid ''value'' (VNum 5)
          (BinaryExpression ''+'' (Identifier ''x'') (Literal (LNum 1))) None False"

definition pendingState :: State where
  "pendingState = cleanUpVariables ((newState 1 2)\<lparr>variablesModified := [''x'' \<mapsto> hx]\<rparr>)"


text \<open>A tail that throws when it is called.\<close>

definition boomCall :: "fn \<Rightarrow> State \<Rightarrow> (val, State) outcome" where
  "boomCall f s = (Inl (Error ''boom''), s)"

text \<open>Native functions that return their first argument.\<close>

definition echoEnv :: "nat \<Rightarrow> val list \<Rightarrow> State \<Rightarrow> (val, State) outcome" where
  "echoEnv n args state = (Inr (arg args 0), state)"

text \<open>A table of builtins, with a constant among the functions.\<close>

definition exampleBuiltins :: "(string \<times> val) list" where
  "exampleBuiltins =
     [(''is_null'', VFun (Native 0)), (''undefined'', VUndefined),
      (''display'', VFun (Native 1)), (''math_abs'', VFun (Native 2))]"

text \<open>
  An \<open>Object.prototype\<close> with two of its members, and a table of builtins with the
  constant \<open>undefined\<close>, a builtin of the name of one of the members, and a number.
\<close>

definition examplePrototype :: "string \<Rightarrow> val" where
  "examplePrototype name =
     (if name = ''toString'' then VFun (Native 100)
      else if name = ''constructor'' then VFun (Native 101)
      else VUndefined)"


text \<open>
  A driver's surroundings: programs are their source text, the empty text does not
  parse, and instrumenting changes nothing. Three runs: one that throws the diagnostic
  after a location was tracked, one that enters a function after the budget has
  elapsed, and one that ends normally.
\<close>

definition exampleParse :: "string \<Rightarrow> string option" where
  "exampleParse code = (if code = [] then None else Some code)"

definition exampleInstrument :: "string list \<Rightarrow> string \<Rightarrow> string list \<Rightarrow> string" where
  "exampleInstrument previous program names = program"

definition detectingRun ::
  "string \<Rightarrow> (string \<times> val) list \<Rightarrow> State \<Rightarrow> (unit, State) outcome option" where
  "detectingRun code builtins state =
     Some (Inl (InfiniteLoop \<lparr>message = ''f'', location = None\<rparr>),
           state\<lparr>lastLocation := Some ((1, 0), (1, 4))\<rparr>)"

definition timedOutRun ::
  "string \<Rightarrow> (string \<times> val) list \<Rightarrow> State \<Rightarrow> (unit, State) outcome option" where
  "timedOutRun code builtins state =
     preFunction recordingCheck ''f'' [] (state\<lparr>timedOut := True\<rparr>)"

definition completingRun ::
  "string \<Rightarrow> (string \<times> val) list \<Rightarrow> State \<Rightarrow> (unit, State) outcome option" where
  "completingRun code builtins state = Some (Inr (), state)"

section \<open>Properties\<close>

subsection \<open>The dispatch policy fires at the doublings of the threshold\<close>

lemma no_power_above:
  fixes c :: int
  assumes "1 \<le> c" "n < c"
  shows "\<not> (\<exists>k::nat. n = c * 2 ^ k)"
proof
  assume "\<exists>k::nat. n = c * 2 ^ k"
  then obtain k :: nat where k: "n = c * 2 ^ k" ..
  have "(1::int) \<le> 2 ^ k" by simp
  with assms(1) have "c * 1 \<le> c * 2 ^ k" by (intro mult_left_mono) auto
  with k assms(2) show False by simp
qed

lemma power_shift:
  fixes c :: int
  assumes "n \<noteq> c"
  shows "(\<exists>k::nat. n = c * 2 * 2 ^ k) \<longleftrightarrow> (\<exists>k::nat. n = c * 2 ^ k)"
proof
  assume "\<exists>k::nat. n = c * 2 * 2 ^ k"
  then obtain k :: nat where "n = c * 2 * 2 ^ k" ..
  then have "n = c * 2 ^ Suc k" by simp
  then show "\<exists>k::nat. n = c * 2 ^ k" by blast
next
  assume "\<exists>k::nat. n = c * 2 ^ k"
  then obtain k :: nat where k: "n = c * 2 ^ k" ..
  with assms have "k \<noteq> 0" by (cases k) auto
  then obtain j where "k = Suc j" by (cases k) auto
  with k have "n = c * 2 * 2 ^ j" by simp
  then show "\<exists>k::nat. n = c * 2 * 2 ^ k" by blast
qed

text \<open>
  From any checkpoint of at least 1 the loop ends, and it has called \<open>check\<close> exactly
  when the length of the history is the checkpoint times a power of two.
\<close>

lemma dispatch_loop_result:
  assumes "1 \<le> checkpoint"
  shows "dispatch_loop check sp fname checkpoint st =
         Some (if \<exists>k::nat. int (length sp) = checkpoint * 2 ^ k
               then check sp st fname else (Inr (), st))"
  using assms
proof (induction "nat (int (length sp) + 1 - checkpoint)" arbitrary: checkpoint st
       rule: less_induct)
  case less
  let ?n = "int (length sp)"
  show ?case
  proof (cases "checkpoint \<le> ?n")
    case False
    then have "\<not> (\<exists>k::nat. ?n = checkpoint * 2 ^ k)"
      using no_power_above [of checkpoint ?n] less.prems by simp
    with False show ?thesis
      by (subst dispatch_loop.simps) simp
  next
    case True
    have smaller: "nat (?n + 1 - checkpoint * 2) < nat (?n + 1 - checkpoint)"
      using True less.prems by simp
    have two: "1 \<le> checkpoint * 2" using less.prems by simp
    note IH = less.hyps [OF smaller two]
    show ?thesis
    proof (cases "?n = checkpoint")
      case same: True
      have ex: "\<exists>k::nat. ?n = checkpoint * 2 ^ k"
        using same by (intro exI [of _ 0]) simp
      have none: "\<not> (\<exists>k::nat. ?n = checkpoint * 2 * 2 ^ k)"
        using no_power_above [of "checkpoint * 2" ?n] two same less.prems by simp
      obtain r st' where c: "check sp st fname = (r, st')" by (cases "check sp st fname")
      show ?thesis
      proof (cases r)
        case (Inl e)
        with c ex same show ?thesis
          by (subst dispatch_loop.simps) simp
      next
        case (Inr u)
        with c ex same none IH [of st'] show ?thesis
          by (subst dispatch_loop.simps) simp
      qed
    next
      case diff: False
      from power_shift [OF diff] True diff IH [of st] show ?thesis
        by (subst dispatch_loop.simps) simp
    qed
  qed
qed

text \<open>
  Claim C1. For a threshold of at least 1, \<open>dispatchIfMeetsThreshold\<close> returns, and
  what it does is exactly one call of the non-termination check on the whole history,
  the state and the name it was given, if the length of the history is the threshold
  times \<open>2 ^ k\<close> for some \<open>k \<ge> 0\<close>; otherwise it does nothing. The equation holds for
  every \<open>check\<close>, so no second call of it and no call on other arguments can be
  hidden in the left-hand side.
\<close>

theorem dispatch_exactly_at_doublings:
  assumes "1 \<le> threshold state"
  shows "dispatchIfMeetsThreshold check history state name =
         Some (if \<exists>k::nat. int (length history) = threshold state * 2 ^ k
               then check history state name else (Inr (), state))"
  unfolding dispatchIfMeetsThreshold_def by (rule dispatch_loop_result [OF assms])

theorem dispatch_exactly_at_doublings_witness:
  "1 \<le> threshold (newState 2 4) \<and>
   dispatchIfMeetsThreshold recordingCheck [0, 1, 2, 3, 4, 5, 6, 7] (newState 2 4) None =
     Some (Inr (), (newState 2 4)\<lparr>loopStack := [[0, 1, 2, 3, 4, 5, 6, 7]]\<rparr>) \<and>
   dispatchIfMeetsThreshold recordingCheck [0, 1, 2, 3, 4, 5] (newState 2 4) None =
     Some (Inr (), newState 2 4)"
proof -
  have th: "1 \<le> threshold (newState 2 4)" by (simp add: newState_def)
  have ex: "\<exists>k::nat. (8::int) = 2 * 2 ^ k" by (rule exI [of _ 2]) simp
  have a: "dispatchIfMeetsThreshold recordingCheck [0, 1, 2, 3, 4, 5, 6, 7] (newState 2 4) None =
     Some (Inr (), (newState 2 4)\<lparr>loopStack := [[0, 1, 2, 3, 4, 5, 6, 7]]\<rparr>)"
    using dispatch_exactly_at_doublings
            [OF th, of recordingCheck "[0, 1, 2, 3, 4, 5, 6, 7]" None] ex
    by (simp add: newState_def recordingCheck_def)
  have b: "dispatchIfMeetsThreshold recordingCheck [0, 1, 2, 3, 4, 5] (newState 2 4) None =
     Some (Inr (), newState 2 4)"
    by (simp add: dispatchIfMeetsThreshold_def dispatch_loop.simps newState_def)
  from th a b show ?thesis by blast
qed

subsection \<open>The stream heuristic\<close>









text \<open>
  Calls through \<open>callThunk\<close> are calls that leave the threshold alone as soon as the
  native functions do, and \<open>callThunk\<close> is \<open>callFunction\<close> on no arguments.
\<close>

lemma callThunk_threshold:
  assumes "\<And>n args s. threshold (snd (env n args s)) = threshold s"
  shows "threshold (snd (callThunk env f st)) = threshold st"
  using assms by (induction env f st rule: callThunk.induct) simp_all

lemma callFunction_no_arguments:
  "callFunction env f [] st = Some (callThunk env f st)"
  by (induction env f st rule: callThunk.induct)
     (simp_all add: is_null_special_def arg_def is_null_def)




lemma boomCall_threshold: "threshold (snd (boomCall f s)) = threshold s"
  by (simp add: boomCall_def)











subsection \<open>Boolean evaluation\<close>

text \<open>
  Claim C4 fails for a hybrid whose \<open>type\<close> is not \<open>'value'\<close>. An array hybrid
  that is valid and has an expression that is no literal is returned as the hybrid object
  it is, not as its concrete value; no path condition is saved, and the path is recorded
  as invalid.
\<close>

theorem array_hybrid_counterexample:
  "isHybrid (VHybrid ''array'' (VArray []) (Identifier ''a'') None False) \<and>
   \<not> isLiteral (Identifier ''a'') \<and>
   saveBoolIfHybrid (VHybrid ''array'' (VArray []) (Identifier ''a'') None False)
       (newState 1 2) =
     (VHybrid ''array'' (VArray []) (Identifier ''a'') None False,
      (newState 1 2)\<lparr>invalidPath := True\<rparr>) \<and>
   fst (saveBoolIfHybrid (VHybrid ''array'' (VArray []) (Identifier ''a'') None False)
       (newState 1 2)) \<noteq>
     shallowConcretize (VHybrid ''array'' (VArray []) (Identifier ''a'') None False) \<and>
   pathCondition (snd (saveBoolIfHybrid
       (VHybrid ''array'' (VArray []) (Identifier ''a'') None False) (newState 1 2))) = None \<and>
   invalidPath (snd (saveBoolIfHybrid
       (VHybrid ''array'' (VArray []) (Identifier ''a'') None False) (newState 1 2)))"
  by (simp add: setInvalidPath_def newState_def)

text \<open>
  Claim C4, amended. For a hybrid of type \<open>'value'\<close>, \<open>saveBoolIfHybrid\<close> returns
  the concrete value, so the branch taken is the one of the concrete program, and
  \<^item> if the hybrid is marked invalid, it records the path as invalid;
  \<^item> if it is valid and its expression is not a literal, it saves that expression when
    the concrete value is truthy, and otherwise the recorded negation, or \<open>!e\<close> when
    none is recorded;
  \<^item> if it is valid and its expression is a literal, it leaves the state as it is.
  Every other value, one that is not a hybrid or a hybrid of another type, is returned
  as it is, and the path is recorded as invalid. Recording the path as invalid sets the
  flag and keeps the saved condition; saving a condition keeps the flag.
\<close>

theorem saveBoolIfHybrid_spec:
  "saveBoolIfHybrid (VHybrid ''value'' c e n True) st = (c, setInvalidPath st) \<and>
   saveBoolIfHybrid (VHybrid ''value'' c e n False) st =
     (c, if isLiteral e then st
         else if truthy c then savePath e st
         else savePath (case n of Some ne \<Rightarrow> ne | None \<Rightarrow> UnaryExpression ''!'' e) st) \<and>
   (\<not> isHybrid v \<longrightarrow> saveBoolIfHybrid v st = (v, setInvalidPath st)) \<and>
   (ty \<noteq> ''value'' \<longrightarrow>
      saveBoolIfHybrid (VHybrid ty c e n i) st = (VHybrid ty c e n i, setInvalidPath st)) \<and>
   ((\<forall>ty c e n i. v = VHybrid ty c e n i \<longrightarrow> ty = ''value'') \<longrightarrow>
      fst (saveBoolIfHybrid v st) = shallowConcretize v) \<and>
   invalidPath (setInvalidPath st) \<and> pathCondition (setInvalidPath st) = pathCondition st \<and>
   pathCondition (savePath e st) = Some e \<and> invalidPath (savePath e st) = invalidPath st"
proof -
  have a: "\<not> isHybrid v \<Longrightarrow> saveBoolIfHybrid v st = (v, setInvalidPath st)"
    by (cases v) simp_all
  have b: "(\<forall>ty c e n i. v = VHybrid ty c e n i \<longrightarrow> ty = ''value'') \<Longrightarrow>
      fst (saveBoolIfHybrid v st) = shallowConcretize v"
    by (cases v) simp_all
  show ?thesis
    using a b
    by (simp add: unaryExpression_def setInvalidPath_def savePath_def split: option.split)
qed

theorem saveBoolIfHybrid_spec_witness:
  "saveBoolIfHybrid hx (newState 1 2) =
     (VNum 5, (newState 1 2)\<lparr>pathCondition :=
        Some (BinaryExpression ''+'' (Identifier ''x'') (Literal (LNum 1)))\<rparr>) \<and>
   saveBoolIfHybrid (VHybrid ''value'' (VBool False) (Identifier ''b'') None False)
       (newState 1 2) =
     (VBool False, (newState 1 2)\<lparr>pathCondition :=
        Some (UnaryExpression ''!'' (Identifier ''b''))\<rparr>) \<and>
   saveBoolIfHybrid (VHybrid ''value'' (VBool False) (Identifier ''b'')
       (Some (Identifier ''nb'')) False) (newState 1 2) =
     (VBool False, (newState 1 2)\<lparr>pathCondition := Some (Identifier ''nb'')\<rparr>) \<and>
   saveBoolIfHybrid (VHybrid ''value'' (VBool True) (Literal (LBool True)) None False)
       (newState 1 2) = (VBool True, newState 1 2) \<and>
   saveBoolIfHybrid (VHybrid ''value'' (VBool True) (Identifier ''b'') None True)
       (newState 1 2) = (VBool True, (newState 1 2)\<lparr>invalidPath := True\<rparr>) \<and>
   \<not> isHybrid (VBool True) \<and>
   saveBoolIfHybrid (VBool True) (newState 1 2) =
     (VBool True, (newState 1 2)\<lparr>invalidPath := True\<rparr>) \<and>
   ''array'' \<noteq> ''value'' \<and>
   saveBoolIfHybrid (VHybrid ''array'' (VArray []) (Identifier ''a'') None False)
       (newState 1 2) =
     (VHybrid ''array'' (VArray []) (Identifier ''a'') None False,
      (newState 1 2)\<lparr>invalidPath := True\<rparr>) \<and>
   fst (saveBoolIfHybrid (VBool True) (newState 1 2)) = shallowConcretize (VBool True)"
proof -
  note value_true = saveBoolIfHybrid_spec [THEN conjunct1]
  note value_false = saveBoolIfHybrid_spec [THEN conjunct2, THEN conjunct1]
  note no_hybrid = saveBoolIfHybrid_spec [THEN conjunct2, THEN conjunct2, THEN conjunct1]
  note other_hybrid =
    saveBoolIfHybrid_spec [THEN conjunct2, THEN conjunct2, THEN conjunct2, THEN conjunct1]
  note concrete =
    saveBoolIfHybrid_spec [THEN conjunct2, THEN conjunct2, THEN conjunct2, THEN conjunct2,
      THEN conjunct1]
  have a: "saveBoolIfHybrid hx (newState 1 2) =
     (VNum 5, (newState 1 2)\<lparr>pathCondition :=
        Some (BinaryExpression ''+'' (Identifier ''x'') (Literal (LNum 1)))\<rparr>)"
    unfolding hx_def by (subst value_false) (simp add: savePath_def)
  have b: "saveBoolIfHybrid (VHybrid ''value'' (VBool False) (Identifier ''b'') None False)
       (newState 1 2) =
     (VBool False, (newState 1 2)\<lparr>pathCondition :=
        Some (UnaryExpression ''!'' (Identifier ''b''))\<rparr>)"
    by (subst value_false) (simp add: savePath_def)
  have c: "saveBoolIfHybrid (VHybrid ''value'' (VBool False) (Identifier ''b'')
       (Some (Identifier ''nb'')) False) (newState 1 2) =
     (VBool False, (newState 1 2)\<lparr>pathCondition := Some (Identifier ''nb'')\<rparr>)"
    by (subst value_false) (simp add: savePath_def)
  have d: "saveBoolIfHybrid (VHybrid ''value'' (VBool True) (Literal (LBool True)) None False)
       (newState 1 2) = (VBool True, newState 1 2)"
    by (subst value_false) simp
  have e: "saveBoolIfHybrid (VHybrid ''value'' (VBool True) (Identifier ''b'') None True)
       (newState 1 2) = (VBool True, (newState 1 2)\<lparr>invalidPath := True\<rparr>)"
    by (subst value_true) (simp add: setInvalidPath_def)
  have f: "\<not> isHybrid (VBool True)" by simp
  have g: "saveBoolIfHybrid (VBool True) (newState 1 2) =
     (VBool True, (newState 1 2)\<lparr>invalidPath := True\<rparr>)"
    using no_hybrid [of "VBool True" "newState 1 2"] f by (simp add: setInvalidPath_def)
  have h: "''array'' \<noteq> ''value''" by simp
  have i: "saveBoolIfHybrid (VHybrid ''array'' (VArray []) (Identifier ''a'') None False)
       (newState 1 2) =
     (VHybrid ''array'' (VArray []) (Identifier ''a'') None False,
      (newState 1 2)\<lparr>invalidPath := True\<rparr>)"
    using other_hybrid [of "''array''" "VArray []" "Identifier ''a''" None False "newState 1 2"] h
    by (simp add: setInvalidPath_def)
  have j: "fst (saveBoolIfHybrid (VBool True) (newState 1 2)) = shallowConcretize (VBool True)"
    using concrete [of "VBool True" "newState 1 2"] by simp
  from a b c d e f g h i j show ?thesis by blast
qed

subsection \<open>Variable reads and writes\<close>

lemma deepConcretizeInplace_not_hybrid: "\<not> isHybrid (deepConcretizeInplace w)"
  by (induction w rule: deepConcretizeInplace.induct) simp_all

lemma hybrid_not_function: "isHybrid v \<Longrightarrow> \<not> isFunction v"
  by (cases v) simp_all

text \<open>
  Claim C6 fails for a variable that holds no hybrid. The name \<open>y\<close> is not pending
  and no hybrid is recorded for it; the read of the number 5 under this name yields no
  existing hybrid: it builds a new one around the number.
\<close>

theorem read_of_concrete_value_counterexample:
  "\<not> isFunction (VNum 5) \<and> \<not> isHybrid (VNum 5) \<and>
   ''y'' \<notin> variablesToReset pendingState \<and>
   variablesModified pendingState ''y'' = None \<and>
   fst (hybridize (VNum 5) ''y'' pendingState) =
     VHybrid ''value'' (VNum 5) (Identifier ''y'') None False \<and>
   fst (hybridize (VNum 5) ''y'' pendingState) \<noteq> VNum 5"
  by (simp add: pendingState_def cleanUpVariables_def newState_def hybridize_def
      hybridizeNamed_def hx_def Let_def)

text \<open>
  Claim C6, amended. A read \<open>hybridize(v, name, state)\<close> returns a function as it is.
  For another value, when the name is pending reset, it returns the deep-concretized
  value hybridized anew under the name. When the name is not pending, it hybridizes the
  value as it stands under the name: a value that is a hybrid already is returned as
  that existing hybrid, and a concrete value is wrapped into a new hybrid of the name.
\<close>

theorem hybridize_spec:
  "(isFunction v \<longrightarrow> fst (hybridize v name st) = v) \<and>
   (\<not> isFunction v \<and> name \<in> variablesToReset st \<longrightarrow>
      fst (hybridize v name st) = hybridizeNamed name (deepConcretizeInplace v) \<and>
      (\<not> isFunction (deepConcretizeInplace v) \<longrightarrow>
         fst (hybridize v name st) =
           VHybrid ''value'' (deepConcretizeInplace v) (Identifier name) None False)) \<and>
   (\<not> isFunction v \<and> name \<notin> variablesToReset st \<longrightarrow>
      fst (hybridize v name st) = hybridizeNamed name v \<and>
      (isHybrid v \<longrightarrow> fst (hybridize v name st) = v) \<and>
      (\<not> isHybrid v \<longrightarrow>
         fst (hybridize v name st) = VHybrid ''value'' v (Identifier name) None False))"
  using deepConcretizeInplace_not_hybrid [of v]
  by (simp add: hybridize_def hybridizeNamed_def Let_def)

theorem hybridize_spec_witness:
  "isFunction (VFun (Native 0)) \<and>
   fst (hybridize (VFun (Native 0)) ''f'' pendingState) = VFun (Native 0) \<and>
   \<not> isFunction hx \<and> ''x'' \<in> variablesToReset pendingState \<and>
   fst (hybridize hx ''x'' pendingState) =
     VHybrid ''value'' (VNum 5) (Identifier ''x'') None False \<and>
   ''y'' \<notin> variablesToReset pendingState \<and> isHybrid hx \<and>
   fst (hybridize hx ''y'' pendingState) = hx \<and>
   \<not> isFunction (VNum 5) \<and> \<not> isHybrid (VNum 5) \<and>
   fst (hybridize (VNum 5) ''y'' pendingState) =
     VHybrid ''value'' (VNum 5) (Identifier ''y'') None False"
  using hybridize_spec [of "VFun (Native 0)" "''f''" pendingState]
    hybridize_spec [of hx "''x''" pendingState]
    hybridize_spec [of hx "''y''" pendingState]
    hybridize_spec [of "VNum 5" "''y''" pendingState]
  by (simp add: hx_def pendingState_def cleanUpVariables_def newState_def hybridizeNamed_def)

text \<open>
  Claim C7 fails: a read does not take the name out of the pending set. After
  \<open>cleanUpVariables\<close>, the variable \<open>x\<close> is pending; it is still pending after a
  read, and a second read resets again: it does not return the hybrid it is given.
\<close>

theorem read_keeps_pending_counterexample:
  "''x'' \<in> variablesToReset pendingState \<and>
   ''x'' \<in> variablesToReset (snd (hybridize hx ''x'' pendingState)) \<and>
   fst (hybridize hx ''x'' (snd (hybridize hx ''x'' pendingState))) \<noteq> hx"
  by (simp add: hx_def pendingState_def cleanUpVariables_def newState_def hybridize_def
      hybridizeNamed_def Let_def)

text \<open>
  Claim C7, amended. \<open>cleanUpVariables\<close> marks every tracked name as pending. A read
  leaves the state, and so the pending set, as it is: every read of a pending variable
  performs the reset. It is the write \<open>saveVarIfHybrid\<close> that takes the name, and no
  other, out of the pending set; after the write of a hybrid, a read returns that hybrid
  without a reset.
\<close>

theorem pending_cleared_by_write:
  "dom (variablesModified st) \<subseteq> variablesToReset (cleanUpVariables st) \<and>
   snd (hybridize v name st) = st \<and>
   (\<not> isFunction v \<and> name \<in> variablesToReset st \<longrightarrow>
      fst (hybridize v name (snd (hybridize v name st))) =
        hybridizeNamed name (deepConcretizeInplace v)) \<and>
   fst (saveVarIfHybrid v name st) = v \<and>
   variablesToReset (snd (saveVarIfHybrid v name st)) = variablesToReset st - {name} \<and>
   (isHybrid v \<longrightarrow>
      variablesModified (snd (saveVarIfHybrid v name st)) name = Some v \<and>
      hybridize v name (snd (saveVarIfHybrid v name st)) =
        (v, snd (saveVarIfHybrid v name st)))"
  using hybrid_not_function [of v]
  by (auto simp: cleanUpVariables_def hybridize_def saveVarIfHybrid_def Let_def
      hybridizeNamed_def)

theorem pending_cleared_by_write_witness:
  "\<not> isFunction hx \<and> ''x'' \<in> variablesToReset pendingState \<and>
   fst (hybridize hx ''x'' (snd (hybridize hx ''x'' pendingState))) =
     VHybrid ''value'' (VNum 5) (Identifier ''x'') None False \<and>
   isHybrid hx \<and>
   ''x'' \<notin> variablesToReset (snd (saveVarIfHybrid hx ''x'' pendingState)) \<and>
   fst (hybridize hx ''x'' (snd (saveVarIfHybrid hx ''x'' pendingState))) = hx"
  using pending_cleared_by_write [of pendingState hx "''x''"]
  by (simp add: hx_def pendingState_def cleanUpVariables_def newState_def hybridizeNamed_def
      hybridize_def saveVarIfHybrid_def Let_def)

subsection \<open>Function entry\<close>









subsection \<open>The table of builtins\<close>

lemma map_of_map_set: "map_of (map_set k v m) = (map_of m)(k \<mapsto> v)"
  by (induction m) (auto simp: fun_eq_iff)


lemma step_newEntry:
  "(\<lambda>(name, f) newBuiltins.
       let specialCase = specialCaseOf objectPrototype name in
       if specialCase \<noteq> VUndefined
       then map_set name specialCase newBuiltins
       else map_set name (VFun (ConcretizeArgs f)) newBuiltins) =
   (\<lambda>(name, f) newBuiltins. map_set name (newEntry objectPrototype name f) newBuiltins)"
  by (simp add: fun_eq_iff newEntry_def Let_def)

text \<open>
  On a map (distinct keys), the loop stores under every name of the old table the new
  entry for the old value, and leaves the other names of the accumulator alone.
\<close>

lemma fold_lookup:
  assumes "distinct (map fst old)"
  shows "map_of (fold (\<lambda>(name, f) newBuiltins.
                         map_set name (newEntry objectPrototype name f) newBuiltins)
                  old acc) name =
         (case map_of old name of
            Some f \<Rightarrow> Some (newEntry objectPrototype name f)
          | None \<Rightarrow> map_of acc name)"
  using assms
proof (induction old arbitrary: acc)
  case Nil
  then show ?case by simp
next
  case (Cons p old)
  obtain k f where p: "p = (k, f)" by (cases p)
  from Cons.prems have k: "map_of old k = None" and d: "distinct (map fst old)"
    by (auto simp: p map_of_eq_None_iff)
  show ?case
    using Cons.IH [OF d, of "map_set k (newEntry objectPrototype k f) acc"] k
    by (auto simp: p map_of_map_set split: option.split)
qed


lemma prepareBuiltins_lookup:
  assumes "distinct (map fst old)"
  shows "map_of (prepareBuiltins objectPrototype old) name =
         (if name = ''undefined'' then Some VUndefined
          else case map_of old name of
                 None \<Rightarrow> None
               | Some f \<Rightarrow> Some (newEntry objectPrototype name f))"
  using fold_lookup [OF assms, of objectPrototype "[]" name]
  by (auto simp: prepareBuiltins_def step_newEntry map_of_map_set split: option.split)



lemma prepareBuiltins_example:
  "prepareBuiltins examplePrototype exampleBuiltins =
     [(''is_null'', VFun IsNullSpecial), (''undefined'', VUndefined),
      (''display'', nothingFunction),
      (''math_abs'', VFun (ConcretizeArgs (VFun (Native 2))))]"
  by (simp add: prepareBuiltins_def exampleBuiltins_def specialCaseOf_def
      builtinSpecialCases_def examplePrototype_def nothingFunction_def Let_def)






lemma callChain_nothing:
  "callChain env (VFun NothingFunction) argss st = Some (Inr (VFun NothingFunction), st)"
  by (induction argss) simp_all

text \<open>
  Claim C10. \<open>nothingFunction\<close> returns itself, whatever its arguments, and leaves
  the state alone. It is what \<open>display\<close> and \<open>display_list\<close> are replaced with, so a
  call of them returns the no-op function, not the argument, and every chain of further
  calls on the result ends normally in \<open>nothingFunction\<close>.
\<close>

theorem nothingFunction_fixed_point:
  "callFunction env NothingFunction args st = Some (Inr nothingFunction, st) \<and>
   builtinSpecialCases ''display'' = Some nothingFunction \<and>
   builtinSpecialCases ''display_list'' = Some nothingFunction \<and>
   (distinct (map fst oldBuiltins) \<and> name \<in> {''display'', ''display_list''} \<and>
    name \<in> fst ` set oldBuiltins \<longrightarrow>
      map_of (prepareBuiltins objectPrototype oldBuiltins) name = Some nothingFunction) \<and>
   callChain env nothingFunction (args # argss) st = Some (Inr nothingFunction, st)"
proof -
  have "map_of (prepareBuiltins objectPrototype oldBuiltins) name = Some nothingFunction"
    if d: "distinct (map fst oldBuiltins)" and n: "name \<in> {''display'', ''display_list''}"
      and k: "name \<in> fst ` set oldBuiltins"
  proof -
    from k obtain f where "map_of oldBuiltins name = Some f"
      by (metis domD dom_map_of_conv_image_fst)
    with n show ?thesis
      by (auto simp: prepareBuiltins_lookup [OF d] newEntry_def specialCaseOf_def
          builtinSpecialCases_def nothingFunction_def)
  qed
  then show ?thesis
    by (simp add: nothingFunction_def builtinSpecialCases_def callChain_nothing)
qed

theorem nothingFunction_fixed_point_witness:
  "callFunction echoEnv NothingFunction [VNum 1] (newState 1 2) =
     Some (Inr nothingFunction, newState 1 2) \<and>
   distinct (map fst exampleBuiltins) \<and> ''display'' \<in> fst ` set exampleBuiltins \<and>
   map_of (prepareBuiltins examplePrototype exampleBuiltins) ''display'' =
     Some nothingFunction \<and>
   callFunction echoEnv (Native 1) [VNum 1] (newState 1 2) = Some (Inr (VNum 1), newState 1 2) \<and>
   nothingFunction \<noteq> VNum 1 \<and>
   callChain echoEnv nothingFunction [[VNum 1], [VNum 2, VNum 3], []] (newState 1 2) =
     Some (Inr nothingFunction, newState 1 2)"
  using nothingFunction_fixed_point
          [of echoEnv "[VNum 1]" "newState 1 2" exampleBuiltins "''display''"
              examplePrototype "[[VNum 2, VNum 3], []]"]
  by (simp add: exampleBuiltins_def echoEnv_def arg_def nothingFunction_def)

subsection \<open>The driver\<close>

text \<open>
  Claim C2 fails for the internal timeout. A run that enters a function after the budget
  has elapsed throws \<open>Error('timeout')\<close>, which is no \<open>InfiniteLoopError\<close>: the
  driver returns \<open>undefined\<close>, as it does for a run that ends normally.
\<close>

theorem timeout_not_reported_counterexample:
  "timedOutRun ''f(0);'' (prepareBuiltins examplePrototype []) (newState 1 2) =
     Some (Inl (Error ''timeout''), (newState 1 2)\<lparr>timedOut := True\<rparr>) \<and>
   testForInfiniteLoop examplePrototype exampleParse ''prelude'' [] exampleInstrument
     (newState 1 2) timedOutRun ''f(0);'' [] = Some None \<and>
   testForInfiniteLoop examplePrototype exampleParse ''prelude'' [] exampleInstrument
     (newState 1 2) completingRun ''f(0);'' [] = Some None"
  by (simp add: testForInfiniteLoop_def exampleParse_def timedOutRun_def completingRun_def
      preFunction_def checkTimeout_def hasTimedOut_def Let_def)

text \<open>
  Claim C2, amended. When the code does not parse, the driver returns \<open>undefined\<close>.
  Otherwise it runs the instrumented code with the prepared builtins and the fresh state,
  and if the run ends:
  \<^item> on an \<open>InfiniteLoopError\<close> it returns that error, with the most recently tracked
    source location as its location when one was tracked, and as thrown otherwise;
  \<^item> on any other error, the \<open>Error('timeout')\<close> of the internal timeout among them,
    and on a normal end, it returns \<open>undefined\<close>. A timeout is therefore not told
    apart from a run in which nothing was detected.
\<close>

theorem driver_reports_certified_only:
  "(parse code = None \<longrightarrow>
      testForInfiniteLoop objectPrototype parse prelude builtins instrument fresh run code
        previous = Some None) \<and>
   (parse code = Some program \<longrightarrow>
      (case run (instrument (List.map_filter parse previous @ [prelude]) program
                   (map fst (prepareBuiltins objectPrototype builtins)))
                (prepareBuiltins objectPrototype builtins) fresh of
         None \<Rightarrow>
           testForInfiniteLoop objectPrototype parse prelude builtins instrument fresh run
             code previous = None
       | Some (Inl (InfiniteLoop err), state) \<Rightarrow>
           testForInfiniteLoop objectPrototype parse prelude builtins instrument fresh run
             code previous =
             Some (Some (case lastLocation state of
                           None \<Rightarrow> err
                         | Some loc \<Rightarrow> err\<lparr>location := Some loc\<rparr>))
       | Some (Inl (Error msg), state) \<Rightarrow>
           testForInfiniteLoop objectPrototype parse prelude builtins instrument fresh run
             code previous = Some None
       | Some (Inl (TypeError msg), state) \<Rightarrow>
           testForInfiniteLoop objectPrototype parse prelude builtins instrument fresh run
             code previous = Some None
       | Some (Inr u, state) \<Rightarrow>
           testForInfiniteLoop objectPrototype parse prelude builtins instrument fresh run
             code previous = Some None))"
  by (auto simp: testForInfiniteLoop_def Let_def
      split: option.split prod.split sum.split error.split)

theorem driver_reports_certified_only_witness:
  "exampleParse ''f(0);'' = Some ''f(0);'' \<and>
   testForInfiniteLoop examplePrototype exampleParse ''prelude'' exampleBuiltins
     exampleInstrument (newState 1 2) detectingRun ''f(0);'' [''const x = 1;''] =
     Some (Some \<lparr>message = ''f'', location = Some ((1, 0), (1, 4))\<rparr>) \<and>
   testForInfiniteLoop examplePrototype exampleParse ''prelude'' exampleBuiltins
     exampleInstrument (newState 1 2) timedOutRun ''f(0);'' [''const x = 1;''] =
     Some None \<and>
   testForInfiniteLoop examplePrototype exampleParse ''prelude'' exampleBuiltins
     exampleInstrument (newState 1 2) completingRun ''f(0);'' [''const x = 1;''] =
     Some None \<and>
   exampleParse [] = None \<and>
   testForInfiniteLoop examplePrototype exampleParse ''prelude'' exampleBuiltins
     exampleInstrument (newState 1 2) detectingRun [] [''const x = 1;''] = Some None"
proof -
  have p: "exampleParse ''f(0);'' = Some ''f(0);''" and q: "exampleParse [] = None"
    by (simp_all add: exampleParse_def)
  have t: "timedOutRun c b (newState 1 2) =
           Some (Inl (Error ''timeout''), (newState 1 2)\<lparr>timedOut := True\<rparr>)" for c b
    by (simp add: timedOutRun_def preFunction_def checkTimeout_def hasTimedOut_def)
  from driver_reports_certified_only
         [of exampleParse "''f(0);''" examplePrototype "''prelude''" exampleBuiltins
             exampleInstrument "newState 1 2" detectingRun "[''const x = 1;'']" "''f(0);''"]
    driver_reports_certified_only
         [of exampleParse "''f(0);''" examplePrototype "''prelude''" exampleBuiltins
             exampleInstrument "newState 1 2" timedOutRun "[''const x = 1;'']" "''f(0);''"]
    driver_reports_certified_only
         [of exampleParse "''f(0);''" examplePrototype "''prelude''" exampleBuiltins
             exampleInstrument "newState 1 2" completingRun "[''const x = 1;'']" "''f(0);''"]
    driver_reports_certified_only
         [of exampleParse "[]" examplePrototype "''prelude''" exampleBuiltins
             exampleInstrument "newState 1 2" detectingRun "[''const x = 1;'']"]
    p q t
  show ?thesis
    by (simp add: detectingRun_def completingRun_def)
qed

end
